theory Spec2Isabelle
  imports Complex_Main
begin

section \<open>Jurassic Parking: the billing pipeline of src/index.js\<close>

subsection \<open>Numbers\<close>

text \<open>
  A BigNumber of bignumber.js is an arbitrary-precision decimal. It is modelled by the
  rational number it denotes. \<open>plus\<close>, \<open>minus\<close> and \<open>multipliedBy\<close>/\<open>times\<close> are exact
  in the library and are written \<open>+\<close>, \<open>-\<close> and \<open>*\<close>. \<open>dividedBy\<close> rounds its
  result to \<open>DECIMAL_PLACES\<close> decimal places with \<open>ROUNDING_MODE\<close>, which line 5 of
  index.js sets to 5 and \<open>ROUND_HALF_UP\<close> (to the nearest neighbour, a tie away from
  zero). The comparisons \<open>isLessThan\<close>, \<open>isLessThanOrEqualTo\<close> and
  \<open>isGreaterThanOrEqualTo\<close> are \<open><\<close>, \<open>\<le>\<close> and \<open>\<ge>\<close>.

  The numbers of the input records (capacity, level, commissionPct, rate,
  fuelPricePerUnit) are finite JavaScript numbers; \<open>toBN\<close> reads one through its shortest
  decimal string, so an input is modelled by the decimal that string denotes and
  \<open>toBN\<close> is the identity on it. NaN and the infinities are not inputs of the model.
\<close>

type_synonym BigNumber = rat

definition toBN :: "rat \<Rightarrow> BigNumber" where
  "toBN thing = thing"

definition DECIMAL_PLACES :: nat where
  "DECIMAL_PLACES = 5"

definition ROUND_HALF_UP :: "nat \<Rightarrow> rat \<Rightarrow> rat" where
  "ROUND_HALF_UP dp x = sgn x * of_int \<lfloor>\<bar>x\<bar> * 10 ^ dp + 1 / 2\<rfloor> / 10 ^ dp"

text \<open>The code divides by the literal 100 only; a zero divisor is outside the model.\<close>

definition dividedBy :: "BigNumber \<Rightarrow> BigNumber \<Rightarrow> BigNumber" where
  "dividedBy x y = ROUND_HALF_UP DECIMAL_PLACES (x / y)"

text \<open>
  The job counting of \<open>assignJobLoads\<close> is done in plain JavaScript numbers, and with an
  empty employee pool it divides by zero: the values Infinity and NaN appear. A number of
  that computation is therefore a \<open>jsnum\<close>. The finite values there are quotients,
  products and differences of array lengths; they are kept exact (for lengths below
  \<open>2^32\<close> the rounded double quotient has the same floor and the same comparison with
  1 as the exact quotient). There is no negative zero in the model.
\<close>

datatype jsnum = Fin rat | PosInfinity | NegInfinity | NaN

fun js_div :: "jsnum \<Rightarrow> jsnum \<Rightarrow> jsnum" where
  "js_div (Fin a) (Fin b) =
     (if b \<noteq> 0 then Fin (a / b)
      else if a = 0 then NaN
      else if 0 < a then PosInfinity else NegInfinity)"
| "js_div NaN y = NaN"
| "js_div x NaN = NaN"
| "js_div (Fin a) y = Fin 0"
| "js_div PosInfinity (Fin b) = (if 0 \<le> b then PosInfinity else NegInfinity)"
| "js_div NegInfinity (Fin b) = (if 0 \<le> b then NegInfinity else PosInfinity)"
| "js_div x y = NaN"

fun js_times :: "jsnum \<Rightarrow> jsnum \<Rightarrow> jsnum" where
  "js_times (Fin a) (Fin b) = Fin (a * b)"
| "js_times NaN y = NaN"
| "js_times x NaN = NaN"
| "js_times (Fin a) PosInfinity =
     (if a = 0 then NaN else if 0 < a then PosInfinity else NegInfinity)"
| "js_times (Fin a) NegInfinity =
     (if a = 0 then NaN else if 0 < a then NegInfinity else PosInfinity)"
| "js_times PosInfinity (Fin b) =
     (if b = 0 then NaN else if 0 < b then PosInfinity else NegInfinity)"
| "js_times NegInfinity (Fin b) =
     (if b = 0 then NaN else if 0 < b then NegInfinity else PosInfinity)"
| "js_times PosInfinity PosInfinity = PosInfinity"
| "js_times NegInfinity NegInfinity = PosInfinity"
| "js_times x y = NegInfinity"

fun js_minus :: "jsnum \<Rightarrow> jsnum \<Rightarrow> jsnum" where
  "js_minus (Fin a) (Fin b) = Fin (a - b)"
| "js_minus NaN y = NaN"
| "js_minus x NaN = NaN"
| "js_minus PosInfinity PosInfinity = NaN"
| "js_minus NegInfinity NegInfinity = NaN"
| "js_minus PosInfinity y = PosInfinity"
| "js_minus NegInfinity y = NegInfinity"
| "js_minus x PosInfinity = NegInfinity"
| "js_minus x NegInfinity = PosInfinity"

fun js_plus :: "jsnum \<Rightarrow> jsnum \<Rightarrow> jsnum" where
  "js_plus (Fin a) (Fin b) = Fin (a + b)"
| "js_plus NaN y = NaN"
| "js_plus x NaN = NaN"
| "js_plus PosInfinity NegInfinity = NaN"
| "js_plus NegInfinity PosInfinity = NaN"
| "js_plus PosInfinity y = PosInfinity"
| "js_plus NegInfinity y = NegInfinity"
| "js_plus x PosInfinity = PosInfinity"
| "js_plus x NegInfinity = NegInfinity"

text \<open>\<open>%\<close>: the remainder takes the sign of the dividend.\<close>

fun js_mod :: "jsnum \<Rightarrow> jsnum \<Rightarrow> jsnum" where
  "js_mod (Fin a) (Fin b) =
     (if b = 0 then NaN
      else Fin (sgn a * (\<bar>a\<bar> - \<bar>b\<bar> * of_int \<lfloor>\<bar>a\<bar> / \<bar>b\<bar>\<rfloor>)))"
| "js_mod (Fin a) PosInfinity = Fin a"
| "js_mod (Fin a) NegInfinity = Fin a"
| "js_mod x y = NaN"

fun js_gt :: "jsnum \<Rightarrow> jsnum \<Rightarrow> bool" where
  "js_gt (Fin a) (Fin b) = (b < a)"
| "js_gt NaN y = False"
| "js_gt x NaN = False"
| "js_gt PosInfinity PosInfinity = False"
| "js_gt PosInfinity y = True"
| "js_gt x NegInfinity = (x \<noteq> NegInfinity)"
| "js_gt x y = False"

fun js_strict_eq :: "jsnum \<Rightarrow> jsnum \<Rightarrow> bool" where
  "js_strict_eq NaN y = False"
| "js_strict_eq x NaN = False"
| "js_strict_eq x y = (x = y)"

fun Math_floor :: "jsnum \<Rightarrow> jsnum" where
  "Math_floor (Fin a) = Fin (of_int \<lfloor>a\<rfloor>)"
| "Math_floor x = x"

text \<open>\<open>!x\<close> on a number: zero and NaN are falsy.\<close>

fun js_not :: "jsnum \<Rightarrow> bool" where
  "js_not (Fin a) = (a = 0)"
| "js_not NaN = True"
| "js_not x = False"

text \<open>A boolean used as an operand of \<open>%\<close> is converted to 1 or 0.\<close>

definition ToNumber :: "bool \<Rightarrow> jsnum" where
  "ToNumber b = (if b then Fin 1 else Fin 0)"

subsection \<open>Arrays\<close>

text \<open>
  \<open>Array.prototype.sort\<close> is stable (Node 11 and later) and sorts the array in place.
  Both comparators of the code are \<open>(a, b) \<Rightarrow> key b - key a\<close>, negative exactly when
  \<open>key a\<close> is the greater: the order is descending in the key, ties in their original
  order. The sign of the difference is taken as exact: for the employees it is a
  subtraction of doubles, for the jobs a BigNumber read back as a number, which keeps its
  sign unless the difference is below the smallest double.
\<close>

definition sort_desc :: "('a \<Rightarrow> rat) \<Rightarrow> 'a list \<Rightarrow> 'a list" where
  "sort_desc key xs = sort_key (\<lambda>x. - key x) xs"

text \<open>
  \<open>arr.splice(0, deleteCount)\<close>: the count is truncated to an integer (NaN counts as 0)
  and clamped between 0 and the length; the removed elements are returned and the array
  keeps the rest. The pair is (removed, rest).
\<close>

fun ToIntegerOrInfinity :: "jsnum \<Rightarrow> jsnum" where
  "ToIntegerOrInfinity NaN = Fin 0"
| "ToIntegerOrInfinity (Fin a) = Fin (sgn a * of_int \<lfloor>\<bar>a\<bar>\<rfloor>)"
| "ToIntegerOrInfinity x = x"

fun actualDeleteCount :: "nat \<Rightarrow> jsnum \<Rightarrow> nat" where
  "actualDeleteCount len deleteCount =
     (case ToIntegerOrInfinity deleteCount of
        Fin a \<Rightarrow> min (nat \<lfloor>max a 0\<rfloor>) len
      | PosInfinity \<Rightarrow> len
      | NegInfinity \<Rightarrow> 0
      | NaN \<Rightarrow> 0)"

definition splice0 :: "'a list \<Rightarrow> jsnum \<Rightarrow> 'a list \<times> 'a list" where
  "splice0 arr deleteCount =
     (let k = actualDeleteCount (length arr) deleteCount in (take k arr, drop k arr))"

subsection \<open>The records of the pipeline\<close>

record fuel_state =
  capacity :: rat
  level :: rat

record car =
  licencePlate :: string
  size_c :: string
  fuel :: fuel_state

text \<open>\<open>{...car, fuelAdded, netTotal}\<close>\<close>

record pricedJob = car +
  fuelAdded :: BigNumber
  netTotal :: BigNumber

record employee =
  name :: string
  commissionPct :: rat

text \<open>\<open>{...emp, numJobs}\<close>\<close>

record jobLoad = employee +
  numJobs :: jsnum

text \<open>
  \<open>{...emp, ...job}\<close>: the keys of a job load and of a priced job are disjoint, so the
  merged object is the pair of the two.
\<close>

record assignedJob =
  emp :: jobLoad
  job :: pricedJob

text \<open>\<open>{...job, totalToPay}\<close>\<close>

record payableJob = assignedJob +
  totalToPay :: BigNumber

text \<open>
  The module \<open>./params\<close> is not part of the sources: its three exports are parameters of
  the model. An entry of \<open>parkingRates\<close> has the fields \<open>size\<close> and \<open>rate\<close> that
  \<open>calculateServiceFees\<close> reads.
\<close>

record parkingRate =
  size_r :: string
  rate :: rat

datatype error =
    TypeError
  | Error string

subsection \<open>calculateUnitsToFuel and calculateServiceFees\<close>

record fuelData =
  unitsToFuel :: BigNumber
  totalFuelPrice :: BigNumber

definition calculateUnitsToFuel :: "rat \<Rightarrow> 'a car_scheme \<Rightarrow> fuelData" where
  "calculateUnitsToFuel fuelPricePerUnit car =
     (let carLevel = toBN (level (fuel car));
          carCapacity = toBN (capacity (fuel car));
          carFuelPricePerUnit = toBN fuelPricePerUnit;
          fuelPct = carLevel * 100
      in if fuelPct \<le> 10 \<and> fuelPct \<ge> 0
         then (let units = carCapacity - carCapacity * carLevel
               in \<lparr>unitsToFuel = units, totalFuelPrice = units * carFuelPricePerUnit\<rparr>)
         else \<lparr>unitsToFuel = 0, totalFuelPrice = 0\<rparr>)"

text \<open>
  The callback of \<open>queue.map\<close> in \<open>calculateServiceFees\<close>. With no entry of the rate
  table for the size of the car, \<open>filter(...)[0]\<close> is \<open>undefined\<close> and reading its
  \<open>rate\<close> throws a TypeError.
\<close>

definition serviceFee :: "parkingRate list \<Rightarrow> rat \<Rightarrow> car \<Rightarrow> error + pricedJob" where
  "serviceFee parkingRates fuelPricePerUnit car =
     (case filter (\<lambda>x. size_r x = size_c car) parkingRates of
        [] \<Rightarrow> Inl TypeError
      | x # _ \<Rightarrow>
          (let parkingRate = toBN (rate x);
               fuelData = calculateUnitsToFuel fuelPricePerUnit car;
               total = toBN (totalFuelPrice fuelData) + parkingRate
           in Inr \<lparr>licencePlate = licencePlate car, size_c = size_c car, fuel = fuel car,
                   fuelAdded = unitsToFuel fuelData, netTotal = total\<rparr>))"

text \<open>\<open>Array.prototype.map\<close> with a callback that may throw: the first throw ends it.\<close>

fun map_throwing :: "('a \<Rightarrow> error + 'b) \<Rightarrow> 'a list \<Rightarrow> error + 'b list" where
  "map_throwing f [] = Inr []"
| "map_throwing f (x # xs) =
     (case f x of
        Inl e \<Rightarrow> Inl e
      | Inr y \<Rightarrow> (case map_throwing f xs of Inl e \<Rightarrow> Inl e | Inr ys \<Rightarrow> Inr (y # ys)))"

definition calculateServiceFees ::
  "parkingRate list \<Rightarrow> rat \<Rightarrow> car list \<Rightarrow> error + pricedJob list" where
  "calculateServiceFees parkingRates fuelPricePerUnit queue =
     map_throwing (serviceFee parkingRates fuelPricePerUnit) queue"

subsection \<open>assignJobLoads\<close>

text \<open>
  The constants of \<open>assignJobLoads\<close>, as functions of the two lengths
  \<open>totalJobs\<close> and \<open>totalEmployees\<close>. In \<open>isEvenQueue\<close> the source reads
  \<open>!totalJobs % totalEmployees === 0\<close>, which JavaScript parses as
  \<open>((!totalJobs) % totalEmployees) === 0\<close>.
\<close>

definition jobsPerEmployee :: "nat \<Rightarrow> nat \<Rightarrow> jsnum" where
  "jobsPerEmployee totalJobs totalEmployees =
     js_div (Fin (of_nat totalJobs)) (Fin (of_nat totalEmployees))"

definition chunkSize :: "nat \<Rightarrow> nat \<Rightarrow> jsnum" where
  "chunkSize totalJobs totalEmployees =
     (if js_gt (jobsPerEmployee totalJobs totalEmployees) (Fin 1)
      then Math_floor (jobsPerEmployee totalJobs totalEmployees)
      else Fin 1)"

definition isEvenQueue :: "nat \<Rightarrow> nat \<Rightarrow> bool" where
  "isEvenQueue totalJobs totalEmployees =
     js_strict_eq
       (js_mod (ToNumber (js_not (Fin (of_nat totalJobs)))) (Fin (of_nat totalEmployees)))
       (Fin 0)"

definition leftoverJobs :: "nat \<Rightarrow> nat \<Rightarrow> jsnum" where
  "leftoverJobs totalJobs totalEmployees =
     js_minus (Fin (of_nat totalJobs))
       (js_times (chunkSize totalJobs totalEmployees) (Fin (of_nat totalEmployees)))"

text \<open>
  \<open>jobLoads\<close> after the leftover step. \<open>jobLoads[0].numJobs += leftoverJobs\<close> on an
  empty array would read a property of \<open>undefined\<close>.
\<close>

definition jobLoads :: "employee list \<Rightarrow> nat \<Rightarrow> error + jobLoad list" where
  "jobLoads sortedEmployees totalJobs =
     (let totalEmployees = length sortedEmployees;
          loads = map (\<lambda>e. \<lparr>name = name e, commissionPct = commissionPct e,
                             numJobs = chunkSize totalJobs totalEmployees\<rparr>) sortedEmployees
      in if \<not> isEvenQueue totalJobs totalEmployees
         then (if js_gt (leftoverJobs totalJobs totalEmployees) (Fin 0)
               then (case loads of
                       [] \<Rightarrow> Inl TypeError
                     | first # others \<Rightarrow>
                         Inr (first\<lparr>numJobs := js_plus (numJobs first)
                                       (leftoverJobs totalJobs totalEmployees)\<rparr> # others))
               else Inr loads)
         else Inr loads)"

text \<open>
  The loop \<open>for (const emp of jobLoads)\<close>: the state is the spliced queue and the
  array \<open>jobs\<close>; the loop breaks when the queue is empty.
\<close>

fun consumeQueue ::
  "jobLoad list \<Rightarrow> pricedJob list \<Rightarrow> assignedJob list \<Rightarrow> pricedJob list \<times> assignedJob list" where
  "consumeQueue [] sortedQueue jobs = (sortedQueue, jobs)"
| "consumeQueue (e # rest) sortedQueue jobs =
     (let (empJobs, sortedQueue') = splice0 sortedQueue (numJobs e);
          jobs' = jobs @ map (\<lambda>j. \<lparr>emp = e, job = j\<rparr>) empJobs
      in if length sortedQueue' = 0 then (sortedQueue', jobs')
         else consumeQueue rest sortedQueue' jobs')"

text \<open>
  \<open>employees.sort\<close> and \<open>queue.sort\<close> sort the arrays of the caller in place and return
  them, so \<open>sortedEmployees\<close> and \<open>sortedQueue\<close> are the caller's arrays, and
  \<open>sortedQueue.splice\<close> removes the consumed jobs from the caller's queue. A run gives
  the two arrays as the call leaves them and what the call returns or throws.
\<close>

record assignJobLoads_run =
  employees_after :: "employee list"
  queue_after :: "pricedJob list"
  returned :: "error + assignedJob list"

definition assignJobLoads :: "employee list \<Rightarrow> pricedJob list \<Rightarrow> assignJobLoads_run" where
  "assignJobLoads employees queue =
     (let sortedEmployees = sort_desc commissionPct employees;
          sortedQueue = sort_desc netTotal queue;
          totalJobs = length sortedQueue
      in case jobLoads sortedEmployees totalJobs of
           Inl err \<Rightarrow>
             \<lparr>employees_after = sortedEmployees, queue_after = sortedQueue,
              returned = Inl err\<rparr>
         | Inr loads \<Rightarrow>
             (let (rest, jobs) = consumeQueue loads sortedQueue []
              in \<lparr>employees_after = sortedEmployees, queue_after = rest,
                  returned = (if length rest > 0
                              then Inl (Error ''UNASSIGNED JOBS STILL IN QUEUE!!!!'')
                              else Inr jobs)\<rparr>))"

subsection \<open>addEmployeeCommission\<close>

text \<open>
  \<open>console.warn\<close> is an output of the stage: the messages, in the order they are
  written, beside the returned array. A message records the two values that the
  template string of the source prints.
\<close>

datatype console_message = CommissionOutOfRange BigNumber string

definition commissionToPay :: "assignedJob \<Rightarrow> console_message list \<times> BigNumber" where
  "commissionToPay j =
     (let jobNetTotal = toBN (netTotal (job j));
          empCommission = toBN (commissionPct (emp j))
      in if empCommission < 0
         then ([CommissionOutOfRange empCommission (name (emp j))], 0)
         else ([], dividedBy (jobNetTotal * empCommission) 100))"

definition payable :: "assignedJob \<Rightarrow> payableJob" where
  "payable j =
     \<lparr>emp = emp j, job = job j,
      totalToPay = toBN (netTotal (job j)) + toBN (snd (commissionToPay j))\<rparr>"

definition addEmployeeCommission ::
  "assignedJob list \<Rightarrow> console_message list \<times> payableJob list" where
  "addEmployeeCommission loads =
     (concat (map (\<lambda>j. fst (commissionToPay j)) loads), map payable loads)"

subsection \<open>The caller's arrays after the three map stages\<close>




subsection \<open>Inputs of the examples\<close>

text \<open>
  Modelled from the spec: the export \<open>parkingRates\<close> of \<open>./params\<close>, which is not
  among the sources. The spec gives the default rate table: small 25, large 35.
\<close>

definition default_parkingRates :: "parkingRate list" where
  "default_parkingRates =
     [\<lparr>size_r = ''small'', rate = 25\<rparr>, \<lparr>size_r = ''large'', rate = 35\<rparr>]"

text \<open>
  Modelled from the spec: the export \<open>fuelPricePerUnit\<close> of \<open>./params\<close>, which is
  not among the sources. The spec gives the default price, 1.75 a unit.
\<close>

definition default_fuelPricePerUnit :: rat where
  "default_fuelPricePerUnit = 7 / 4"

text \<open>The cars, the employees and the priced queue of the repository's tests.\<close>

definition testCars :: "car list" where
  "testCars =
     [\<lparr>licencePlate = ''A'', size_c = ''large'', fuel = \<lparr>capacity = 10, level = 1 / 10\<rparr>\<rparr>,
      \<lparr>licencePlate = ''B'', size_c = ''small'', fuel = \<lparr>capacity = 10, level = 1 / 10\<rparr>\<rparr>,
      \<lparr>licencePlate = ''C'', size_c = ''large'', fuel = \<lparr>capacity = 10, level = - 11 / 10\<rparr>\<rparr>,
      \<lparr>licencePlate = ''D'', size_c = ''large'', fuel = \<lparr>capacity = 10, level = 9 / 10\<rparr>\<rparr>]"

definition test_employees :: "employee list" where
  "test_employees =
     [\<lparr>name = ''Ian Malcolm'', commissionPct = 11\<rparr>,
      \<lparr>name = ''Alan Grant'', commissionPct = 15\<rparr>]"

definition test_job :: "string \<Rightarrow> rat \<Rightarrow> rat \<Rightarrow> rat \<Rightarrow> pricedJob" where
  "test_job plate lvl added net =
     \<lparr>licencePlate = plate, size_c = ''large'', fuel = \<lparr>capacity = 10, level = lvl\<rparr>,
      fuelAdded = added, netTotal = net\<rparr>"

definition test_queue :: "pricedJob list" where
  "test_queue =
     [test_job ''D'' (9 / 10) 0 (7 / 2), test_job ''A'' (1 / 10) 9 (203 / 4),
      test_job ''C'' (11 / 10) 0 35, test_job ''B'' (1 / 10) 9 (163 / 4)]"

text \<open>What the test of \<open>calculateServiceFees\<close> expects of \<open>testCars\<close>.\<close>

definition priced_testCars :: "pricedJob list" where
  "priced_testCars =
     [\<lparr>licencePlate = ''A'', size_c = ''large'', fuel = \<lparr>capacity = 10, level = 1 / 10\<rparr>,
       fuelAdded = 9, netTotal = 203 / 4\<rparr>,
      \<lparr>licencePlate = ''B'', size_c = ''small'', fuel = \<lparr>capacity = 10, level = 1 / 10\<rparr>,
       fuelAdded = 9, netTotal = 163 / 4\<rparr>,
      \<lparr>licencePlate = ''C'', size_c = ''large'', fuel = \<lparr>capacity = 10, level = - 11 / 10\<rparr>,
       fuelAdded = 0, netTotal = 35\<rparr>,
      \<lparr>licencePlate = ''D'', size_c = ''large'', fuel = \<lparr>capacity = 10, level = 9 / 10\<rparr>,
       fuelAdded = 0, netTotal = 35\<rparr>]"

text \<open>A car of a size that the default rate table does not list.\<close>

definition medium_car :: car where
  "medium_car =
     \<lparr>licencePlate = ''M'', size_c = ''medium'', fuel = \<lparr>capacity = 10, level = 1 / 2\<rparr>\<rparr>"

text \<open>
  The job loads of the test of \<open>addEmployeeCommission\<close>; job A given to an employee
  on 12.25 per cent; and job C given to an employee whose percentage is negative.
\<close>

definition test_jobLoads :: "assignedJob list" where
  "test_jobLoads =
     [\<lparr>emp = \<lparr>name = ''Alan Grant'', commissionPct = 15, numJobs = Fin 2\<rparr>,
       job = test_job ''A'' (1 / 10) 9 (203 / 4)\<rparr>,
      \<lparr>emp = \<lparr>name = ''Ian Malcolm'', commissionPct = 11, numJobs = Fin 2\<rparr>,
       job = test_job ''C'' (11 / 10) 0 35\<rparr>]"

definition quarter_point_job :: assignedJob where
  "quarter_point_job =
     \<lparr>emp = \<lparr>name = ''Alan Grant'', commissionPct = 49 / 4, numJobs = Fin 1\<rparr>,
      job = test_job ''A'' (1 / 10) 9 (203 / 4)\<rparr>"

definition negative_commission_job :: assignedJob where
  "negative_commission_job =
     \<lparr>emp = \<lparr>name = ''Dennis Nedry'', commissionPct = - 5, numJobs = Fin 1\<rparr>,
      job = test_job ''C'' (11 / 10) 0 35\<rparr>"

text \<open>The payable jobs of the test of \<open>makeMePretty\<close>.\<close>

definition test_payable :: "payableJob list" where
  "test_payable =
     [\<lparr>emp = \<lparr>name = ''Alan Grant'', commissionPct = 15, numJobs = Fin 2\<rparr>,
       job = test_job ''A'' (1 / 10) 9 (203 / 4), totalToPay = 4669 / 80\<rparr>,
      \<lparr>emp = \<lparr>name = ''Ian Malcolm'', commissionPct = 11, numJobs = Fin 2\<rparr>,
       job = test_job ''C'' (11 / 10) 0 35, totalToPay = 777 / 20\<rparr>]"

text \<open>
  Three jobs for the two employees of the tests, and the example of the comment in
  \<open>assignJobLoads\<close>: ten jobs among four employees.
\<close>

definition three_jobs :: "pricedJob list" where
  "three_jobs =
     [test_job ''D'' (9 / 10) 0 (7 / 2), test_job ''A'' (1 / 10) 9 (203 / 4),
      test_job ''C'' (11 / 10) 0 35]"

definition four_employees :: "employee list" where
  "four_employees =
     [\<lparr>name = ''Ian Malcolm'', commissionPct = 11\<rparr>,
      \<lparr>name = ''Alan Grant'', commissionPct = 15\<rparr>,
      \<lparr>name = ''Ellie Sattler'', commissionPct = 13\<rparr>,
      \<lparr>name = ''John Hammond'', commissionPct = 9\<rparr>]"

definition ten_jobs :: "pricedJob list" where
  "ten_jobs =
     map (\<lambda>plate. test_job plate (9 / 10) 0 35)
       [''J0'', ''J1'', ''J2'', ''J3'', ''J4'', ''J5'', ''J6'', ''J7'', ''J8'', ''J9'']"

subsection \<open>makeMePretty and jurassicParking\<close>

text \<open>
  \<open>toNumber\<close> turns a BigNumber into a JavaScript number, the double nearest to it.
  The type of plain numbers and the conversion are parameters of the model.
\<close>

record 'n receipt =
  licencePlate :: string
  employee :: string
  fuelAdded :: 'n
  price :: 'n

definition makeMePretty :: "(BigNumber \<Rightarrow> 'n) \<Rightarrow> payableJob list \<Rightarrow> 'n receipt list" where
  "makeMePretty toNumber loads =
     map (\<lambda>j. \<lparr>licencePlate = car.licencePlate (job j),
               employee = name (emp j),
               fuelAdded = toNumber (toBN (pricedJob.fuelAdded (job j))),
               price = toNumber (toBN (totalToPay j))\<rparr>) loads"

definition jurassicParking ::
  "employee list \<Rightarrow> parkingRate list \<Rightarrow> rat \<Rightarrow> (BigNumber \<Rightarrow> 'n) \<Rightarrow> car list
     \<Rightarrow> error + console_message list \<times> 'n receipt list" where
  "jurassicParking employees parkingRates fuelPricePerUnit toNumber queue =
     (case calculateServiceFees parkingRates fuelPricePerUnit queue of
        Inl err \<Rightarrow> Inl err
      | Inr servicedQueue \<Rightarrow>
          (case returned (assignJobLoads employees servicedQueue) of
             Inl err \<Rightarrow> Inl err
           | Inr loads \<Rightarrow>
               (let (messages, goToTheCheckout) = addEmployeeCommission loads
                in Inr (messages, makeMePretty toNumber goToTheCheckout))))"

section \<open>Auxiliary facts\<close>

subsection \<open>Mapping with a throwing callback\<close>

lemma map_throwing_Inr:
  "map_throwing f xs = Inr ys \<Longrightarrow> length ys = length xs \<and> (\<forall>i<length xs. f (xs ! i) = Inr (ys ! i))"
proof (induction xs arbitrary: ys)
  case Nil
  then show ?case by simp
next
  case (Cons x xs)
  from Cons.prems obtain y ys' where fx: "f x = Inr y" and rest: "map_throwing f xs = Inr ys'"
    and ys: "ys = y # ys'"
    by (auto split: sum.splits)
  from Cons.IH [OF rest] have len: "length ys' = length xs"
    and nth: "\<forall>i<length xs. f (xs ! i) = Inr (ys' ! i)" by simp_all
  show ?case
  proof (intro conjI allI impI)
    show "length ys = length (x # xs)" using len ys by simp
  next
    fix i assume "i < length (x # xs)"
    then show "f ((x # xs) ! i) = Inr (ys ! i)"
      using fx nth ys by (cases i) simp_all
  qed
qed

subsection \<open>Rounding of \<open>dividedBy\<close>\<close>

lemma round_half_int:
  fixes y :: rat
  shows "\<bar>of_int \<lfloor>y + 1 / 2\<rfloor> - y\<bar> \<le> 1 / 2"
  by linarith

lemma ROUND_HALF_UP_error:
  "\<bar>ROUND_HALF_UP dp x - x\<bar> \<le> 1 / (2 * 10 ^ dp)"
proof -
  define p :: rat where "p = 10 ^ dp"
  have p: "0 < p" by (simp add: p_def)
  define n where "n = (of_int \<lfloor>\<bar>x\<bar> * p + 1 / 2\<rfloor> :: rat)"
  have close: "\<bar>n - \<bar>x\<bar> * p\<bar> \<le> 1 / 2" unfolding n_def by (rule round_half_int)
  have x: "x = sgn x * \<bar>x\<bar>" by (simp add: sgn_mult_abs)
  have "ROUND_HALF_UP dp x - x = sgn x * n / p - sgn x * \<bar>x\<bar>"
    using x by (simp add: ROUND_HALF_UP_def n_def p_def)
  also have "\<dots> = sgn x * ((n - \<bar>x\<bar> * p) / p)"
    using p by (simp add: field_simps)
  finally have "\<bar>ROUND_HALF_UP dp x - x\<bar> = \<bar>sgn x\<bar> * (\<bar>n - \<bar>x\<bar> * p\<bar> / p)"
    using p by (simp add: abs_mult)
  also have "\<dots> \<le> 1 * ((1 / 2) / p)"
    using close p by (intro mult_mono divide_right_mono) (auto simp: abs_sgn_eq)
  finally show ?thesis by (simp add: p_def)
qed

lemma ROUND_HALF_UP_exact:
  assumes "x * 10 ^ dp = of_int k"
  shows "ROUND_HALF_UP dp x = x"
proof -
  have p: "(0::rat) < 10 ^ dp" by simp
  have "\<bar>x\<bar> * 10 ^ dp = \<bar>x * 10 ^ dp\<bar>" by (simp add: abs_mult)
  also have "\<dots> = of_int \<bar>k\<bar>" using assms by simp
  finally have a: "\<bar>x\<bar> * 10 ^ dp = of_int \<bar>k\<bar>" .
  have "\<lfloor>(of_int \<bar>k\<bar> :: rat) + 1 / 2\<rfloor> = \<bar>k\<bar>" by linarith
  with a have "ROUND_HALF_UP dp x = sgn x * (\<bar>x\<bar> * 10 ^ dp) / 10 ^ dp"
    by (simp add: ROUND_HALF_UP_def)
  also have "\<dots> = sgn x * \<bar>x\<bar>" by simp
  finally show ?thesis by (simp add: sgn_mult_abs)
qed

subsection \<open>The job counts of \<open>assignJobLoads\<close>\<close>

lemma quotient_gt_one:
  assumes "0 < totalEmployees"
  shows "(1 < (of_nat totalJobs :: rat) / of_nat totalEmployees) = (totalEmployees < totalJobs)"
proof -
  have "(1 < (of_nat totalJobs :: rat) / of_nat totalEmployees) =
        ((of_nat totalEmployees :: rat) < of_nat totalJobs)"
    using assms by (simp add: pos_less_divide_eq)
  then show ?thesis by (simp only: of_nat_less_iff)
qed

lemma chunkSize_pos:
  assumes "0 < totalEmployees"
  shows "chunkSize totalJobs totalEmployees =
         Fin (of_nat (if totalEmployees < totalJobs then totalJobs div totalEmployees else 1))"
proof -
  have fl: "\<lfloor>(of_nat totalJobs :: rat) / of_nat totalEmployees\<rfloor> = int (totalJobs div totalEmployees)"
    by (rule floor_divide_of_nat_eq)
  have q: "jobsPerEmployee totalJobs totalEmployees = Fin (of_nat totalJobs / of_nat totalEmployees)"
    using assms by (simp add: jobsPerEmployee_def)
  show ?thesis
    unfolding chunkSize_def q
    by (simp only: js_gt.simps Math_floor.simps quotient_gt_one [OF assms] fl of_int_of_nat_eq if_distrib [of Fin] if_distrib [of of_nat] of_nat_1)
qed


lemma isEvenQueue_pos:
  assumes "0 < totalJobs" "0 < totalEmployees"
  shows "isEvenQueue totalJobs totalEmployees"
  using assms by (simp add: isEvenQueue_def ToNumber_def)

lemma actualDeleteCount_nat:
  "actualDeleteCount len (Fin (of_nat c)) = min c len"
proof -
  have "sgn (of_nat c :: rat) * of_int \<lfloor>\<bar>of_nat c :: rat\<bar>\<rfloor> = of_nat c"
    by (cases "c = 0") simp_all
  then show ?thesis by simp
qed

lemma splice0_nat:
  "splice0 arr (Fin (of_nat c)) = (take c arr, drop c arr)"
  by (simp add: splice0_def actualDeleteCount_nat Let_def min_def del: actualDeleteCount.simps)


text \<open>
  The branch that adds the leftover to the first employee is never taken: with two
  positive lengths \<open>isEvenQueue\<close> is true, and in every other case the leftover is
  not positive. So every job load keeps \<open>chunkSize\<close>.
\<close>

lemma leftoverJobs_no_employees:
  "\<not> js_gt (leftoverJobs totalJobs 0) (Fin 0)"
proof (cases "totalJobs = 0")
  case True
  then show ?thesis
    by (simp add: leftoverJobs_def chunkSize_def jobsPerEmployee_def)
next
  case False
  then have "jobsPerEmployee totalJobs 0 = PosInfinity"
    by (simp add: jobsPerEmployee_def)
  then have "chunkSize totalJobs 0 = PosInfinity"
    by (simp add: chunkSize_def)
  then show ?thesis
    by (simp add: leftoverJobs_def)
qed

lemma leftoverJobs_no_jobs:
  assumes "0 < totalEmployees"
  shows "\<not> js_gt (leftoverJobs 0 totalEmployees) (Fin 0)"
  using assms by (simp add: leftoverJobs_def chunkSize_pos)

lemma leftover_never_added:
  assumes "\<not> isEvenQueue totalJobs totalEmployees"
  shows "\<not> js_gt (leftoverJobs totalJobs totalEmployees) (Fin 0)"
proof (cases "totalEmployees = 0")
  case True
  then show ?thesis by (simp add: leftoverJobs_no_employees)
next
  case False
  with assms have "totalJobs = 0" using isEvenQueue_pos by auto
  with False show ?thesis by (simp add: leftoverJobs_no_jobs)
qed

lemma jobLoads_eq:
  "jobLoads sortedEmployees totalJobs =
   Inr (map (\<lambda>e. \<lparr>name = name e, commissionPct = commissionPct e,
                    numJobs = chunkSize totalJobs (length sortedEmployees)\<rparr>) sortedEmployees)"
  using leftover_never_added [of totalJobs "length sortedEmployees"]
  by (simp add: jobLoads_def Let_def)




lemma consumeQueue_rest:
  assumes "\<forall>e\<in>set loads. numJobs e = Fin (of_nat c)"
  shows "fst (consumeQueue loads q acc) = drop (c * length loads) q"
  using assms
proof (induction loads arbitrary: q acc)
  case Nil
  show ?case by simp
next
  case (Cons e rest)
  then have e: "numJobs e = Fin (of_nat c)"
    and rest: "\<forall>e\<in>set rest. numJobs e = Fin (of_nat c)" by simp_all
  show ?case
  proof (cases "drop c q = []")
    case True
    then have "drop (c * length (e # rest)) q = []" by simp
    with True show ?thesis by (simp add: e splice0_nat)
  next
    case False
    then have "fst (consumeQueue (e # rest) q acc) =
               fst (consumeQueue rest (drop c q) (acc @ map (\<lambda>j. \<lparr>emp = e, job = j\<rparr>) (take c q)))"
      by (simp add: e splice0_nat)
    also have "\<dots> = drop (c * length rest) (drop c q)" by (rule Cons.IH [OF rest])
    finally show ?thesis by (simp add: add.commute)
  qed
qed



text \<open>
  With the same count \<open>c\<close> for every employee, job \<open>i\<close> of the queue goes to
  employee \<open>i div c\<close>, as long as there are jobs and employees.
\<close>

lemma consumeQueue_nth:
  assumes "\<forall>e\<in>set loads. numJobs e = Fin (of_nat c)" and "0 < c"
  shows "snd (consumeQueue loads q acc) =
         acc @ map (\<lambda>i. \<lparr>emp = loads ! (i div c), job = q ! i\<rparr>)
                   [0..<min (length q) (c * length loads)]"
  using assms(1)
proof (induction loads arbitrary: q acc)
  case Nil
  show ?case by simp
next
  case (Cons e rest)
  then have e: "numJobs e = Fin (of_nat c)"
    and rest: "\<forall>e\<in>set rest. numJobs e = Fin (of_nat c)" by simp_all
  let ?f = "\<lambda>i. \<lparr>emp = (e # rest) ! (i div c), job = q ! i\<rparr>"
  define first where "first = map (\<lambda>j. \<lparr>emp = e, job = j\<rparr>) (take c q)"
  have first: "first = map ?f [0..<min (length q) c]"
  proof (rule nth_equalityI)
    show "length first = length (map ?f [0..<min (length q) c])"
      by (simp add: first_def min.commute)
  next
    fix i assume "i < length first"
    then have "i < c" "i < length q" by (simp_all add: first_def)
    then show "first ! i = map ?f [0..<min (length q) c] ! i"
      by (simp add: first_def)
  qed
  show ?case
  proof (cases "drop c q = []")
    case True
    then have "min (length q) (c * length (e # rest)) = min (length q) c"
      by simp
    with True first show ?thesis
      by (simp add: e splice0_nat first_def)
  next
    case False
    then have long: "c < length q" by simp
    define m where "m = min (length (drop c q)) (c * length rest)"
    let ?g = "\<lambda>i. \<lparr>emp = rest ! (i div c), job = drop c q ! i\<rparr>"
    have total: "min (length q) (c * length (e # rest)) = c + m"
      using long by (auto simp add: m_def min_def)
    have "snd (consumeQueue (e # rest) q acc) = snd (consumeQueue rest (drop c q) (acc @ first))"
      using False by (simp add: e splice0_nat first_def)
    also have "\<dots> = (acc @ first) @ map ?g [0..<m]"
      unfolding m_def by (rule Cons.IH [OF rest])
    finally have unfolded: "snd (consumeQueue (e # rest) q acc) = acc @ first @ map ?g [0..<m]"
      by simp
    have "first @ map ?g [0..<m] = map ?f [0..<c + m]"
    proof (rule nth_equalityI)
      show "length (first @ map ?g [0..<m]) = length (map ?f [0..<c + m])"
        using long by (simp add: first_def)
    next
      fix i assume "i < length (first @ map ?g [0..<m])"
      then have i: "i < c + m" using long by (simp add: first_def)
      have lenf: "length first = c" using long by (simp add: first_def)
      show "(first @ map ?g [0..<m]) ! i = map ?f [0..<c + m] ! i"
      proof (cases "i < c")
        case True
        with long i show ?thesis by (simp add: nth_append lenf) (simp add: first_def)
      next
        case False
        then have d: "i div c = Suc ((i - c) div c)"
          using assms(2) by (simp add: le_div_geq)
        have "c + (i - c) = i" using False by simp
        with False i long d show ?thesis
          by (simp add: nth_append lenf)
      qed
    qed
    with unfolded total show ?thesis by simp
  qed
qed

subsection \<open>Sorting and the whole of \<open>assignJobLoads\<close>\<close>

lemma length_sort_desc: "length (sort_desc key xs) = length xs"
  by (simp add: sort_desc_def)


lemma sort_desc_Nil_iff: "sort_desc key xs = [] \<longleftrightarrow> xs = []"
  using length_sort_desc [of key xs] by (metis length_0_conv)





lemma assignJobLoads_unfold:
  "assignJobLoads employees queue =
     (let loads = map (\<lambda>e. \<lparr>name = name e, commissionPct = commissionPct e,
                             numJobs = chunkSize (length queue) (length employees)\<rparr>)
                      (sort_desc commissionPct employees);
          run = consumeQueue loads (sort_desc netTotal queue) []
      in \<lparr>employees_after = sort_desc commissionPct employees, queue_after = fst run,
          returned = (if fst run \<noteq> [] then Inl (Error ''UNASSIGNED JOBS STILL IN QUEUE!!!!'')
                      else Inr (snd run))\<rparr>)"
  by (simp add: assignJobLoads_def jobLoads_eq length_sort_desc Let_def split_beta)

lemma assignJobLoads_pool:
  fixes employees :: "employee list" and queue :: "pricedJob list"
  assumes "employees \<noteq> []"
  defines "c \<equiv> (if length employees < length queue
                 then length queue div length employees else 1)"
  defines "loads \<equiv> map (\<lambda>e. \<lparr>name = name e, commissionPct = commissionPct e,
                                 numJobs = Fin (of_nat c)\<rparr>)
                        (sort_desc commissionPct employees)"
  shows "queue_after (assignJobLoads employees queue) =
           drop (c * length employees) (sort_desc netTotal queue)"
    and "returned (assignJobLoads employees queue) =
           (if c * length employees < length queue
            then Inl (Error ''UNASSIGNED JOBS STILL IN QUEUE!!!!'')
            else Inr (map (\<lambda>i. \<lparr>emp = loads ! (i div c), job = sort_desc netTotal queue ! i\<rparr>)
                          [0..<length queue]))"
proof -
  have pos: "0 < length employees" using assms(1) by simp
  have c: "0 < c" using pos by (simp add: c_def div_greater_zero_iff)
  have chunk: "chunkSize (length queue) (length employees) = Fin (of_nat c)"
    unfolding c_def by (rule chunkSize_pos [OF pos])
  have uniform: "\<forall>e\<in>set loads. numJobs e = Fin (of_nat c)"
    by (auto simp: loads_def)
  have len: "length loads = length employees"
    by (simp add: loads_def length_sort_desc)
  have rest: "fst (consumeQueue loads (sort_desc netTotal queue) []) =
              drop (c * length employees) (sort_desc netTotal queue)"
    using consumeQueue_rest [OF uniform] len by simp
  have jobs: "snd (consumeQueue loads (sort_desc netTotal queue) []) =
              map (\<lambda>i. \<lparr>emp = loads ! (i div c), job = sort_desc netTotal queue ! i\<rparr>)
                  [0..<min (length queue) (c * length employees)]"
    using consumeQueue_nth [OF uniform c, of "sort_desc netTotal queue" "[]"] len
    by (simp add: length_sort_desc)
  show "queue_after (assignJobLoads employees queue) =
           drop (c * length employees) (sort_desc netTotal queue)"
    by (simp add: assignJobLoads_unfold chunk Let_def rest flip: loads_def)
  show "returned (assignJobLoads employees queue) =
           (if c * length employees < length queue
            then Inl (Error ''UNASSIGNED JOBS STILL IN QUEUE!!!!'')
            else Inr (map (\<lambda>i. \<lparr>emp = loads ! (i div c), job = sort_desc netTotal queue ! i\<rparr>)
                          [0..<length queue]))"
    by (simp add: assignJobLoads_unfold chunk Let_def rest jobs length_sort_desc min_def
             flip: loads_def)
qed

lemma chunk_covers_iff:
  assumes "0 < (e::nat)"
  shows "(if e < j then j div e else 1) * e < j \<longleftrightarrow> e < j \<and> \<not> e dvd j"
proof (cases "e < j")
  case True
  have "j div e * e + j mod e = j" by simp
  moreover have "j mod e = 0 \<longleftrightarrow> e dvd j" by (simp add: dvd_eq_mod_eq_0)
  ultimately have "j div e * e < j \<longleftrightarrow> \<not> e dvd j"
    by (metis add.right_neutral less_add_same_cancel1 nat_neq_iff not_gr_zero)
  with True show ?thesis by simp
next
  case False
  then show ?thesis by simp
qed

subsection \<open>The fee and the commission of one job\<close>

lemma serviceFee_Inr:
  assumes "serviceFee parkingRates fuelPricePerUnit c = Inr j"
  shows "filter (\<lambda>x. size_r x = size_c c) parkingRates \<noteq> [] \<and>
         car.licencePlate j = car.licencePlate c \<and> size_c j = size_c c \<and> fuel j = fuel c \<and>
         pricedJob.fuelAdded j = unitsToFuel (calculateUnitsToFuel fuelPricePerUnit c) \<and>
         netTotal j = totalFuelPrice (calculateUnitsToFuel fuelPricePerUnit c) +
                      rate (hd (filter (\<lambda>x. size_r x = size_c c) parkingRates))"
  using assms by (auto simp: serviceFee_def toBN_def Let_def split: list.splits)

lemma commissionToPay_cases:
  "commissionToPay j =
     (if commissionPct (emp j) < 0
      then ([CommissionOutOfRange (commissionPct (emp j)) (name (emp j))], 0)
      else ([], ROUND_HALF_UP 5 (netTotal (job j) * commissionPct (emp j) / 100)))"
  by (simp add: commissionToPay_def toBN_def dividedBy_def DECIMAL_PLACES_def Let_def)

lemma console_messages:
  "concat (map (\<lambda>j. fst (commissionToPay j)) loads) =
   map (\<lambda>j. CommissionOutOfRange (commissionPct (emp j)) (name (emp j)))
       (filter (\<lambda>j. commissionPct (emp j) < 0) loads)"
  by (induction loads) (simp_all add: commissionToPay_cases)

subsection \<open>Failures of the fee calculator and the empty pool\<close>

lemma serviceFee_Inl_iff:
  "(\<exists>e. serviceFee parkingRates fuelPricePerUnit c = Inl e) \<longleftrightarrow>
   (\<forall>r\<in>set parkingRates. size_r r \<noteq> size_c c)"
proof (cases "filter (\<lambda>x. size_r x = size_c c) parkingRates")
  case Nil
  then have "\<forall>r\<in>set parkingRates. size_r r \<noteq> size_c c"
    by (simp add: filter_empty_conv)
  with Nil show ?thesis by (simp add: serviceFee_def)
next
  case (Cons x xs)
  then have "x \<in> set (filter (\<lambda>x. size_r x = size_c c) parkingRates)" by simp
  then have "\<exists>r\<in>set parkingRates. size_r r = size_c c" by auto
  with Cons show ?thesis by (auto simp: serviceFee_def Let_def)
qed

lemma serviceFee_error:
  "serviceFee parkingRates fuelPricePerUnit c = Inl e \<Longrightarrow> e = TypeError"
  by (auto simp: serviceFee_def Let_def split: list.splits)

lemma calculateServiceFees_total:
  "calculateServiceFees parkingRates fuelPricePerUnit queue =
     (if \<exists>c\<in>set queue. \<forall>r\<in>set parkingRates. size_r r \<noteq> size_c c
      then Inl TypeError
      else Inr (map (\<lambda>c. projr (serviceFee parkingRates fuelPricePerUnit c)) queue))"
proof (induction queue)
  case Nil
  show ?case by (simp add: calculateServiceFees_def)
next
  case (Cons c cs)
  show ?case
  proof (cases "serviceFee parkingRates fuelPricePerUnit c")
    case (Inl e)
    then have "e = TypeError" by (rule serviceFee_error)
    moreover from Inl have "\<forall>r\<in>set parkingRates. size_r r \<noteq> size_c c"
      using serviceFee_Inl_iff [of parkingRates fuelPricePerUnit c] by blast
    ultimately show ?thesis using Inl by (simp add: calculateServiceFees_def)
  next
    case (Inr j)
    then have "\<not> (\<forall>r\<in>set parkingRates. size_r r \<noteq> size_c c)"
      using serviceFee_Inl_iff [of parkingRates fuelPricePerUnit c] by auto
    with Inr Cons.IH show ?thesis
      by (auto simp: calculateServiceFees_def)
  qed
qed

lemma assignJobLoads_no_employees:
  "assignJobLoads [] queue =
     \<lparr>employees_after = [], queue_after = sort_desc netTotal queue,
      returned = (if queue = [] then Inr []
                  else Inl (Error ''UNASSIGNED JOBS STILL IN QUEUE!!!!''))\<rparr>"
proof -
  have none: "sort_desc commissionPct ([] :: employee list) = []"
    by (simp add: sort_desc_def)
  show ?thesis
    by (simp add: assignJobLoads_unfold none sort_desc_Nil_iff Let_def)
qed

subsection \<open>What \<open>assignJobLoads\<close> returns and leaves\<close>





text \<open>
  With a nonempty pool the call throws exactly when there are more jobs than employees
  and the number of employees does not divide the number of jobs.
\<close>

lemma assignJobLoads_throws_iff:
  assumes "employees \<noteq> []"
  shows "returned (assignJobLoads employees queue) =
           Inl (Error ''UNASSIGNED JOBS STILL IN QUEUE!!!!'') \<longleftrightarrow>
         length employees < length queue \<and> \<not> length employees dvd length queue"
proof -
  have pos: "0 < length employees" using assms by simp
  show ?thesis
    using assignJobLoads_pool(2) [OF assms, of queue]
      chunk_covers_iff [OF pos, of "length queue"]
    by (simp split: if_splits)
qed

section \<open>The claims\<close>

text \<open>
  C1 says that for every nonempty employee pool and nonempty job list
  \<open>assignJobLoads\<close> returns, leaves no job in the queue and assigns every job once.
  The code does not do so. With the two employees of the tests and three jobs,
  \<open>chunkSize\<close> is 1, \<open>isEvenQueue\<close> is true, so the leftover job is not added to the
  first employee; two jobs are assigned, job D stays in the queue and the sanity check
  throws.
\<close>

theorem three_jobs_two_employees:
  "assignJobLoads test_employees three_jobs =
     \<lparr>employees_after =
        [\<lparr>name = ''Alan Grant'', commissionPct = 15\<rparr>,
         \<lparr>name = ''Ian Malcolm'', commissionPct = 11\<rparr>],
      queue_after = [test_job ''D'' (9 / 10) 0 (7 / 2)],
      returned = Inl (Error ''UNASSIGNED JOBS STILL IN QUEUE!!!!'')\<rparr>"
  by code_simp

text \<open>
  C2 says that a positive leftover is added to the count of the first employee. The code
  does not do so. In the example of its own comment, ten jobs among four employees,
  \<open>chunkSize\<close> is 2 and the leftover is 2, but \<open>isEvenQueue\<close> is true: every employee
  keeps \<open>numJobs = 2\<close> (2-2-2-2, not 4-2-2-2), eight jobs are assigned, two stay in
  the queue and the call throws.
\<close>

theorem ten_jobs_four_employees:
  "chunkSize 10 4 = Fin 2 \<and> leftoverJobs 10 4 = Fin 2 \<and> isEvenQueue 10 4 \<and>
   jobLoads (sort_desc commissionPct four_employees) (length ten_jobs) =
     Inr [\<lparr>name = ''Alan Grant'', commissionPct = 15, numJobs = Fin 2\<rparr>,
          \<lparr>name = ''Ellie Sattler'', commissionPct = 13, numJobs = Fin 2\<rparr>,
          \<lparr>name = ''Ian Malcolm'', commissionPct = 11, numJobs = Fin 2\<rparr>,
          \<lparr>name = ''John Hammond'', commissionPct = 9, numJobs = Fin 2\<rparr>] \<and>
   returned (assignJobLoads four_employees ten_jobs) =
     Inl (Error ''UNASSIGNED JOBS STILL IN QUEUE!!!!'') \<and>
   length (queue_after (assignJobLoads four_employees ten_jobs)) = 2"
  by code_simp

text \<open>
  C3: with \<open>fuelPct = level * 100\<close>, a car is refuelled exactly when
  \<open>0 \<le> fuelPct \<le> 10\<close>, both bounds included; then \<open>fuelAdded\<close> is
  \<open>capacity - capacity * level\<close> and the fuel fee is \<open>fuelAdded * fuelPricePerUnit\<close>.
  For every other percentage, negative or above 10, both are 0. Every priced job that
  \<open>calculateServiceFees\<close> returns carries that \<open>fuelAdded\<close>, and its \<open>netTotal\<close> is
  the fuel fee plus the parking fee, the rate of the first entry of the table for the
  size of the car.
\<close>

theorem refuel_rule:
  "(unitsToFuel (calculateUnitsToFuel fuelPricePerUnit c) =
      (if 0 \<le> level (fuel c) * 100 \<and> level (fuel c) * 100 \<le> 10
       then capacity (fuel c) - capacity (fuel c) * level (fuel c) else 0)) \<and>
   (totalFuelPrice (calculateUnitsToFuel fuelPricePerUnit c) =
      unitsToFuel (calculateUnitsToFuel fuelPricePerUnit c) * fuelPricePerUnit) \<and>
   (calculateServiceFees parkingRates fuelPricePerUnit queue = Inr jobs \<longrightarrow>
      length jobs = length queue \<and>
      (\<forall>i<length queue.
         pricedJob.fuelAdded (jobs ! i) = unitsToFuel (calculateUnitsToFuel fuelPricePerUnit (queue ! i)) \<and>
         netTotal (jobs ! i) =
           totalFuelPrice (calculateUnitsToFuel fuelPricePerUnit (queue ! i)) +
           rate (hd (filter (\<lambda>x. size_r x = size_c (queue ! i)) parkingRates))))"
proof (intro conjI impI allI)
  show "unitsToFuel (calculateUnitsToFuel fuelPricePerUnit c) =
      (if 0 \<le> level (fuel c) * 100 \<and> level (fuel c) * 100 \<le> 10
       then capacity (fuel c) - capacity (fuel c) * level (fuel c) else 0)"
    by (simp add: calculateUnitsToFuel_def toBN_def Let_def)
  show "totalFuelPrice (calculateUnitsToFuel fuelPricePerUnit c) =
      unitsToFuel (calculateUnitsToFuel fuelPricePerUnit c) * fuelPricePerUnit"
    by (simp add: calculateUnitsToFuel_def toBN_def Let_def)
next
  assume ok: "calculateServiceFees parkingRates fuelPricePerUnit queue = Inr jobs"
  then have m: "map_throwing (serviceFee parkingRates fuelPricePerUnit) queue = Inr jobs"
    by (simp add: calculateServiceFees_def)
  from map_throwing_Inr [OF m] show "length jobs = length queue" by simp
  fix i assume "i < length queue"
  with map_throwing_Inr [OF m]
  have "serviceFee parkingRates fuelPricePerUnit (queue ! i) = Inr (jobs ! i)" by simp
  from serviceFee_Inr [OF this]
  show "pricedJob.fuelAdded (jobs ! i) = unitsToFuel (calculateUnitsToFuel fuelPricePerUnit (queue ! i))"
    and "netTotal (jobs ! i) =
           totalFuelPrice (calculateUnitsToFuel fuelPricePerUnit (queue ! i)) +
           rate (hd (filter (\<lambda>x. size_r x = size_c (queue ! i)) parkingRates))"
    by simp_all
qed

theorem refuel_rule_witness:
  "calculateServiceFees default_parkingRates default_fuelPricePerUnit testCars =
     Inr priced_testCars \<and>
   (0::nat) < length testCars \<and>
   pricedJob.fuelAdded (priced_testCars ! 0) =
     unitsToFuel (calculateUnitsToFuel default_fuelPricePerUnit (testCars ! 0)) \<and>
   netTotal (priced_testCars ! 0) =
     totalFuelPrice (calculateUnitsToFuel default_fuelPricePerUnit (testCars ! 0)) +
     rate (hd (filter (\<lambda>x. size_r x = size_c (testCars ! 0)) default_parkingRates)) \<and>
   pricedJob.fuelAdded (priced_testCars ! 0) = 9 \<and>
   netTotal (priced_testCars ! 0) = 203 / 4"
proof -
  have ok: "calculateServiceFees default_parkingRates default_fuelPricePerUnit testCars =
            Inr priced_testCars"
    by code_simp
  have i: "(0::nat) < length testCars"
    by (simp add: testCars_def)
  have v: "pricedJob.fuelAdded (priced_testCars ! 0) = 9 \<and> netTotal (priced_testCars ! 0) = 203 / 4"
    by (simp add: priced_testCars_def)
  from refuel_rule [of default_fuelPricePerUnit "testCars ! 0" default_parkingRates testCars
      priced_testCars] ok i v
  show ?thesis by blast
qed

text \<open>
  C4, as the claim states it, fails: an empty employee pool raises nothing when the job
  list is empty too (the whole batch returns no receipts and no error). The failures that
  the code does raise are not of a kind of their own: a size without a rate is a
  TypeError, and an empty pool with jobs is the plain Error of the sanity check.
\<close>

theorem no_config_error_counterexample:
  "jurassicParking [] default_parkingRates default_fuelPricePerUnit id [] = Inr ([], []) \<and>
   calculateServiceFees default_parkingRates default_fuelPricePerUnit [medium_car] =
     Inl TypeError \<and>
   returned (assignJobLoads [] test_queue) = Inl (Error ''UNASSIGNED JOBS STILL IN QUEUE!!!!'')"
  by code_simp

text \<open>
  C4, amended: \<open>calculateServiceFees\<close> fails exactly when the size of some car has no
  entry in the rate table; the failure is a TypeError, the call returns no priced job at
  all and \<open>jurassicParking\<close> fails with it; otherwise it returns a priced job for
  every car. With an empty employee pool, \<open>assignJobLoads\<close> returns the empty list when
  the job list is empty and otherwise throws the Error of its sanity check, returning
  nothing.
\<close>

theorem failures_of_the_batch:
  "(if \<exists>c\<in>set queue. \<forall>r\<in>set parkingRates. size_r r \<noteq> size_c c
    then calculateServiceFees parkingRates fuelPricePerUnit queue = Inl TypeError \<and>
         jurassicParking employees parkingRates fuelPricePerUnit toNumber queue = Inl TypeError
    else \<exists>priced. calculateServiceFees parkingRates fuelPricePerUnit queue = Inr priced \<and>
                  length priced = length queue) \<and>
   returned (assignJobLoads [] jobs) =
     (if jobs = [] then Inr [] else Inl (Error ''UNASSIGNED JOBS STILL IN QUEUE!!!!'')) \<and>
   employees_after (assignJobLoads [] jobs) = []"
  by (simp add: calculateServiceFees_total jurassicParking_def assignJobLoads_no_employees)

theorem failures_of_the_batch_witness:
  "calculateServiceFees default_parkingRates default_fuelPricePerUnit [medium_car] =
     Inl TypeError \<and>
   jurassicParking test_employees default_parkingRates default_fuelPricePerUnit id [medium_car] =
     Inl TypeError \<and>
   (\<exists>priced. calculateServiceFees default_parkingRates default_fuelPricePerUnit testCars =
              Inr priced \<and> length priced = length testCars)"
proof -
  have unmatched: "\<exists>c\<in>set [medium_car]. \<forall>r\<in>set default_parkingRates. size_r r \<noteq> size_c c"
    by (simp add: medium_car_def default_parkingRates_def)
  have matched: "\<not> (\<exists>c\<in>set testCars. \<forall>r\<in>set default_parkingRates. size_r r \<noteq> size_c c)"
    by (simp add: testCars_def default_parkingRates_def)
  from failures_of_the_batch
         [of "[medium_car]" default_parkingRates default_fuelPricePerUnit test_employees id]
       unmatched
  have a: "calculateServiceFees default_parkingRates default_fuelPricePerUnit [medium_car] =
             Inl TypeError \<and>
           jurassicParking test_employees default_parkingRates default_fuelPricePerUnit id
             [medium_car] = Inl TypeError"
    by simp
  from failures_of_the_batch
         [of testCars default_parkingRates default_fuelPricePerUnit test_employees id]
       matched
  have b: "\<exists>priced. calculateServiceFees default_parkingRates default_fuelPricePerUnit testCars =
              Inr priced \<and> length priced = length testCars"
    by simp
  from a b show ?thesis by simp
qed

text \<open>
  C5, as the claim states it, fails: for a percentage that is not negative the claim
  gives \<open>totalToPay = netTotal + netTotal * commissionPct / 100\<close>, but
  \<open>dividedBy(100)\<close> rounds the commission to five decimal places. Job A of the tests
  (50.75) at 12.25 per cent costs 56.96688, not 56.966875.
\<close>

theorem exact_commission_counterexample:
  "0 \<le> commissionPct (emp quarter_point_job) \<and> 
   totalToPay (hd (snd (addEmployeeCommission [quarter_point_job]))) \<noteq>
   netTotal (job quarter_point_job) + netTotal (job quarter_point_job) * commissionPct (emp quarter_point_job) / 100"
  by code_simp

text \<open>
  C5, amended: \<open>addEmployeeCommission\<close> keeps the order and the length of its input,
  and the employee and the job of every entry. For a percentage that is not negative,
  \<open>totalToPay\<close> is \<open>netTotal\<close> plus the commission \<open>netTotal * commissionPct / 100\<close>
  rounded half up to five decimal places (no upper bound on the percentage): it is within
  0.000005 of the exact sum, and equal to it whenever \<open>netTotal * commissionPct\<close> has
  at most three decimal places. For a negative percentage the commission is 0,
  \<open>totalToPay = netTotal\<close>, and one warning is written for each such job, in order;
  the job is processed like the others.
\<close>

theorem commission_rounded:
  "length (snd (addEmployeeCommission loads)) = length loads \<and>
   fst (addEmployeeCommission loads) =
     map (\<lambda>j. CommissionOutOfRange (commissionPct (emp j)) (name (emp j)))
         (filter (\<lambda>j. commissionPct (emp j) < 0) loads) \<and>
   (\<forall>i<length loads.
      emp (snd (addEmployeeCommission loads) ! i) = emp (loads ! i) \<and>
      job (snd (addEmployeeCommission loads) ! i) = job (loads ! i) \<and>
      (0 \<le> commissionPct (emp (loads ! i)) \<longrightarrow>
         totalToPay (snd (addEmployeeCommission loads) ! i) =
           netTotal (job (loads ! i)) +
           ROUND_HALF_UP 5 (netTotal (job (loads ! i)) * commissionPct (emp (loads ! i)) / 100) \<and>
         \<bar>totalToPay (snd (addEmployeeCommission loads) ! i) -
            (netTotal (job (loads ! i)) +
             netTotal (job (loads ! i)) * commissionPct (emp (loads ! i)) / 100)\<bar> \<le> 1 / 200000 \<and>
         ((\<exists>k. netTotal (job (loads ! i)) * commissionPct (emp (loads ! i)) * 1000 = of_int k) \<longrightarrow>
            totalToPay (snd (addEmployeeCommission loads) ! i) =
              netTotal (job (loads ! i)) +
              netTotal (job (loads ! i)) * commissionPct (emp (loads ! i)) / 100)) \<and>
      (commissionPct (emp (loads ! i)) < 0 \<longrightarrow>
         totalToPay (snd (addEmployeeCommission loads) ! i) = netTotal (job (loads ! i))))"
proof (intro conjI allI impI)
  show "length (snd (addEmployeeCommission loads)) = length loads"
    by (simp add: addEmployeeCommission_def)
  show "fst (addEmployeeCommission loads) =
     map (\<lambda>j. CommissionOutOfRange (commissionPct (emp j)) (name (emp j)))
         (filter (\<lambda>j. commissionPct (emp j) < 0) loads)"
    by (simp add: addEmployeeCommission_def console_messages)
next
  fix i assume i: "i < length loads"
  then have nth: "snd (addEmployeeCommission loads) ! i = payable (loads ! i)"
    by (simp add: addEmployeeCommission_def)
  show "emp (snd (addEmployeeCommission loads) ! i) = emp (loads ! i)"
    and "job (snd (addEmployeeCommission loads) ! i) = job (loads ! i)"
    by (simp_all add: nth payable_def)
  let ?x = "netTotal (job (loads ! i)) * commissionPct (emp (loads ! i)) / 100"
  {
    assume "0 \<le> commissionPct (emp (loads ! i))"
    then show rounded: "totalToPay (snd (addEmployeeCommission loads) ! i) =
           netTotal (job (loads ! i)) + ROUND_HALF_UP 5 ?x"
      by (simp add: nth payable_def commissionToPay_cases toBN_def)
    have "\<bar>ROUND_HALF_UP 5 ?x - ?x\<bar> \<le> 1 / (2 * 10 ^ 5)"
      by (rule ROUND_HALF_UP_error)
    then show "\<bar>totalToPay (snd (addEmployeeCommission loads) ! i) -
            (netTotal (job (loads ! i)) + ?x)\<bar> \<le> 1 / 200000"
      by (simp add: rounded)
    assume "\<exists>k. netTotal (job (loads ! i)) * commissionPct (emp (loads ! i)) * 1000 = of_int k"
    then obtain k where "netTotal (job (loads ! i)) * commissionPct (emp (loads ! i)) * 1000 = of_int k" ..
    then have "?x * 10 ^ 5 = of_int k" by (simp add: mult.commute mult.left_commute)
    then have "ROUND_HALF_UP 5 ?x = ?x" by (rule ROUND_HALF_UP_exact)
    then show "totalToPay (snd (addEmployeeCommission loads) ! i) =
              netTotal (job (loads ! i)) + ?x"
      by (simp add: rounded)
  }
  assume "commissionPct (emp (loads ! i)) < 0"
  then show "totalToPay (snd (addEmployeeCommission loads) ! i) = netTotal (job (loads ! i))"
    by (simp add: nth payable_def commissionToPay_cases toBN_def)
qed

theorem commission_rounded_witness:
  "(0::nat) < length test_jobLoads \<and>
   0 \<le> commissionPct (emp (test_jobLoads ! 0)) \<and>
   netTotal (job (test_jobLoads ! 0)) * commissionPct (emp (test_jobLoads ! 0)) * 1000 =
     of_int 761250 \<and>
   totalToPay (snd (addEmployeeCommission test_jobLoads) ! 0) =
     netTotal (job (test_jobLoads ! 0)) +
     netTotal (job (test_jobLoads ! 0)) * commissionPct (emp (test_jobLoads ! 0)) / 100 \<and>
   (0::nat) < length [negative_commission_job] \<and>
   commissionPct (emp ([negative_commission_job] ! 0)) < 0 \<and>
   totalToPay (snd (addEmployeeCommission [negative_commission_job]) ! 0) =
     netTotal (job ([negative_commission_job] ! 0))"
proof -
  have i: "(0::nat) < length test_jobLoads"
    by (simp add: test_jobLoads_def)
  have p: "0 \<le> commissionPct (emp (test_jobLoads ! 0))"
    by (simp add: test_jobLoads_def)
  have k: "netTotal (job (test_jobLoads ! 0)) * commissionPct (emp (test_jobLoads ! 0)) * 1000 =
           of_int 761250"
    by (simp add: test_jobLoads_def test_job_def)
  have n: "commissionPct (emp ([negative_commission_job] ! 0)) < 0"
    by (simp add: negative_commission_job_def)
  from commission_rounded [of test_jobLoads] i p k
  have a: "totalToPay (snd (addEmployeeCommission test_jobLoads) ! 0) =
     netTotal (job (test_jobLoads ! 0)) +
     netTotal (job (test_jobLoads ! 0)) * commissionPct (emp (test_jobLoads ! 0)) / 100"
    by blast
  from commission_rounded [of "[negative_commission_job]"] n
  have b: "totalToPay (snd (addEmployeeCommission [negative_commission_job]) ! 0) =
     netTotal (job ([negative_commission_job] ! 0))"
    by simp
  from i p k n a b show ?thesis by simp
qed








text \<open>
  C9: \<open>makeMePretty\<close> keeps the order and the length of its input, and every receipt
  has the licence plate of the job, the name of the employee (the field \<open>employee\<close>),
  \<open>fuelAdded\<close> and, as \<open>price\<close>, \<open>totalToPay\<close>, the last two converted to plain
  numbers.
\<close>

theorem makeMePretty_projection:
  "length (makeMePretty toNumber loads) = length loads \<and>
   (\<forall>i<length loads.
      makeMePretty toNumber loads ! i =
        \<lparr>receipt.licencePlate = car.licencePlate (job (loads ! i)),
         employee = name (emp (loads ! i)),
         receipt.fuelAdded = toNumber (pricedJob.fuelAdded (job (loads ! i))),
         price = toNumber (totalToPay (loads ! i))\<rparr>)"
  by (simp add: makeMePretty_def toBN_def)

theorem makeMePretty_projection_witness:
  "(0::nat) < length test_payable \<and>
   makeMePretty id test_payable ! 0 =
     \<lparr>receipt.licencePlate = ''A'', employee = ''Alan Grant'',
      receipt.fuelAdded = 9, price = 4669 / 80\<rparr>"
proof -
  have i: "(0::nat) < length test_payable"
    by (simp add: test_payable_def)
  from makeMePretty_projection [of id test_payable] i
  have "makeMePretty id test_payable ! 0 =
        \<lparr>receipt.licencePlate = car.licencePlate (job (test_payable ! 0)),
         employee = name (emp (test_payable ! 0)),
         receipt.fuelAdded = id (pricedJob.fuelAdded (job (test_payable ! 0))),
         price = id (totalToPay (test_payable ! 0))\<rparr>"
    by blast
  then show ?thesis
    by (simp add: i) (simp add: test_payable_def test_job_def)
qed

text \<open>
  C10: with an empty employee pool and an empty job list, \<open>assignJobLoads\<close> returns
  the empty list and throws nothing.
\<close>

theorem empty_pool_empty_queue:
  "assignJobLoads [] [] = \<lparr>employees_after = [], queue_after = [], returned = Inr []\<rparr>"
  by (simp add: assignJobLoads_unfold sort_desc_def)

end
